theory Spec2Isabelle
  imports Main "HOL-Library.AList" "HOL-Library.Sublist"
begin

section \<open>SavedModel metadata, signature resolution and handle lifecycle\<close>

text \<open>
  A shallow embedding of \<^verbatim>\<open>src/saved_models.ts\<close>. The file does not parse as it stands:
  the embedding repairs its syntax (the keywords \<^verbatim>\<open>esport\<close> and \<^verbatim>\<open>nwe\<close>, the doubled dots
  of lines 225 and 243, the unbalanced quotes of line 251, the bracket of line 84 and the
  closing brace that \<^verbatim>\<open>readSavedModelProto\<close> lacks after line 72) and embeds each statement
  as it is written.

  The extractor (lines 83 to 161) reads identifiers that no declaration introduces
  (\<^verbatim>\<open>signatureDefEntry\<close> at line 116, \<^verbatim>\<open>inputTensr\<close> at line 127, \<^verbatim>\<open>input\<close> at line 132,
  \<^verbatim>\<open>signatuerDef\<close> at line 156). Evaluating one throws \<open>ReferenceError\<close>, and the statements
  after it are not reached.

  JavaScript objects used as dictionaries and \<^verbatim>\<open>Map\<close>s are association lists in
  insertion order: \<^verbatim>\<open>Object.keys\<close> and \<^verbatim>\<open>Map.keys\<close> are \<^term>\<open>map fst\<close>,
  \<^verbatim>\<open>Map.get\<close> and the read of an own property are \<^term>\<open>map_of\<close>, a property write is
  \<^const>\<open>AList.update\<close> and \<^verbatim>\<open>Map.delete\<close> is \<^const>\<open>AList.delete\<close>. A property read by
  a name that need not be an own key goes through the prototype of a plain object (see
  the resolver). JavaScript numbers that are ids or enum codes are \<^typ>\<open>int\<close>.
\<close>

subsection \<open>Errors and JavaScript values\<close>

text \<open>
  \<^verbatim>\<open>throw new Error(msg)\<close> is \<open>Inl (Error msg)\<close>. Reading a property of
  \<^verbatim>\<open>undefined\<close>, or calling a method a value does not have, is the runtime's
  \<open>TypeError\<close>; evaluating an identifier that is not declared is its \<open>ReferenceError\<close>.
  \<open>UnknownDtype\<close> and \<open>UnsupportedDtype\<close> are the two failures the specification gives
  the dtype mapper.
\<close>

datatype error =
    Error string
  | TypeError
  | ReferenceError
  | UnknownDtype
  | UnsupportedDtype string

text \<open>
  The values a field of a \<^verbatim>\<open>ModelTensorInfo\<close> holds at run time: a field that was never
  assigned is \<^verbatim>\<open>undefined\<close>, a name is a string, a dimension list is an array.
\<close>

datatype js_value =
    JSUndefined
  | JSString string
  | JSArray "int list"

subsection \<open>The registry of loaded SavedModels and the backend\<close>

record SavedModelEntry =
  path :: string
  tags :: "string list"
  sessionId :: int

type_synonym addr = nat

record 't SignatureDefEntry =
  inputs :: "(string \<times> 't) list"
  outputs :: "(string \<times> 't) list"

record TFSavedModel =
  disposed :: bool
  sessionId :: int
  jsid :: int
  signature :: "addr SignatureDefEntry"

text \<open>
  The module-level \<^verbatim>\<open>loadedSavedModelPathMap\<close> and the backend. The backend is opaque;
  what the model keeps of it is the sequence of session ids \<^verbatim>\<open>deleteSavedModel\<close> was
  called with, oldest first.
\<close>

record world =
  loadedSavedModelPathMap :: "(int \<times> SavedModelEntry) list"
  deleteSavedModel_calls :: "int list"

text \<open>
  The \<^verbatim>\<open>for (const id of Array.from(loadedSavedModelPathMap.keys()))\<close> loop of
  \<^verbatim>\<open>dispose\<close>: \<open>Inr True\<close> when the loop body executes \<^verbatim>\<open>return\<close>, \<open>Inr False\<close> when the
  loop runs to its end.
\<close>

fun dispose_scan ::
  "int list \<Rightarrow> (int \<times> SavedModelEntry) list \<Rightarrow> int \<Rightarrow> error + bool" where
  "dispose_scan [] m sid = Inr False"
| "dispose_scan (k # ks) m sid =
     (case map_of m k of
        None \<Rightarrow> Inl TypeError
      | Some v \<Rightarrow>
          if SavedModelEntry.sessionId v = sid then Inr True
          else dispose_scan ks m sid)"

definition dispose :: "TFSavedModel \<Rightarrow> world \<Rightarrow> error + (TFSavedModel \<times> world)" where
  "dispose this w =
     (if \<not> disposed this then
        (let this' = this\<lparr>disposed := True\<rparr>;
             m = AList.delete (jsid this) (loadedSavedModelPathMap w);
             w' = w\<lparr>loadedSavedModelPathMap := m\<rparr>
         in case dispose_scan (map fst m) m (TFSavedModel.sessionId this) of
              Inl e \<Rightarrow> Inl e
            | Inr True \<Rightarrow> Inr (this', w')
            | Inr False \<Rightarrow>
                Inr (this', w'\<lparr>deleteSavedModel_calls :=
                        deleteSavedModel_calls w' @ [TFSavedModel.sessionId this]\<rparr>))
      else Inl (Error ''This SavedModel has already been deleted.''))"

subsection \<open>The handle's accessors\<close>

text \<open>
  The \<^verbatim>\<open>ModelTensorInfo\<close> objects a signature holds are shared: the accessors return the
  very objects the signature stores, and write to them. So tensor infos live in a store,
  and a signature binds each logical name to the address of its object.
\<close>

record ModelTensorInfo =
  name :: js_value
  dtype :: string
  tfDtype :: js_value
  shape :: js_value

type_synonym store = "addr \<Rightarrow> ModelTensorInfo"

text \<open>\<^verbatim>\<open>s.replace(/:0$/, '')\<close>: without the \<^verbatim>\<open>m\<close> flag, \<^verbatim>\<open>$\<close> is the end of the string.\<close>

definition replace_colon0 :: "string \<Rightarrow> string" where
  "replace_colon0 s =
     (case rev s of
        CHR ''0'' # CHR '':'' # r \<Rightarrow> rev r
      | _ \<Rightarrow> s)"

text \<open>
  \<^verbatim>\<open>results.forEach(info => { info.name = info.name.replace(/:0$/, ''); })\<close>. A name that is
  not a string has no \<^verbatim>\<open>replace\<close> method: the call throws, and the writes done so far
  stay.
\<close>

fun forEach_replace :: "addr list \<Rightarrow> store \<Rightarrow> error option \<times> store" where
  "forEach_replace [] s = (None, s)"
| "forEach_replace (a # as) s =
     (case name (s a) of
        JSString n \<Rightarrow>
          forEach_replace as (s(a := (s a)\<lparr>name := JSString (replace_colon0 n)\<rparr>))
      | _ \<Rightarrow> (Some TypeError, s))"

text \<open>\<^verbatim>\<open>Object.keys(entries).map(key => entries[key])\<close>.\<close>

definition Object_values :: "(string \<times> 'a) list \<Rightarrow> 'a list" where
  "Object_values entries = List.map_filter (map_of entries) (map fst entries)"

definition TFSavedModel_inputs :: "TFSavedModel \<Rightarrow> store \<Rightarrow> (error + addr list) \<times> store" where
  "TFSavedModel_inputs this s =
     (let entries = inputs (signature this);
          results = Object_values entries
      in case forEach_replace results s of
           (Some e, s') \<Rightarrow> (Inl e, s')
         | (None, s') \<Rightarrow> (Inr results, s'))"

text \<open>
  The \<^verbatim>\<open>outputs\<close> getter (lines 223 to 230) is the \<^verbatim>\<open>inputs\<close> getter over
  \<^verbatim>\<open>this.signature.outputs\<close>, with \<^verbatim>\<open>entries\<close> written \<^verbatim>\<open>entris\<close> at line 225 and
  \<^verbatim>\<open>info\<close> written \<^verbatim>\<open>infor\<close> at line 227. It is embedded as the getter it copies. Read
  with these two names undeclared, it throws at line 225 before it writes or returns
  anything; what is stated below of a call that returns, and of what a call leaves
  unchanged, holds on that reading as well.
\<close>

definition TFSavedModel_outputs :: "TFSavedModel \<Rightarrow> store \<Rightarrow> (error + addr list) \<times> store" where
  "TFSavedModel_outputs this s =
     (let entries = outputs (signature this);
          results = Object_values entries
      in case forEach_replace results s of
           (Some e, s') \<Rightarrow> (Inl e, s')
         | (None, s') \<Rightarrow> (Inr results, s'))"

subsection \<open>Reading the SavedModel file\<close>

definition SAVED_MODEL_FILE_NAME :: string where
  "SAVED_MODEL_FILE_NAME = ''/saved_model.pb''"

definition SAVED_MODEL_INIT_OP_KEY :: string where
  "SAVED_MODEL_INIT_OP_KEY = ''__saved_model_init_op''"

text \<open>
  The file system is the set of paths the process can read: \<^verbatim>\<open>fs.accessSync(p, R_OK)\<close>
  returns when \<open>p\<close> is in it and throws otherwise.

  \<^verbatim>\<open>readSavedModelProto\<close> (lines 65 to 72) is the access check and nothing else: no
  statement reads the file, none deserializes it and none returns a value. When the check
  passes, the promise resolves to \<^verbatim>\<open>undefined\<close>, which is \<open>None\<close> here; a message would be
  \<open>Some\<close> of it.
\<close>

definition readSavedModelProto :: "string set \<Rightarrow> string \<Rightarrow> error + 'm option" where
  "readSavedModelProto readable p =
     (if p @ SAVED_MODEL_FILE_NAME \<notin> readable then
        Inl (Error (''There is no saved_model.pb file in the directory: '' @ p))
      else Inr None)"

subsection \<open>Dtypes\<close>

text \<open>
  \<^verbatim>\<open>Object.keys(object).find(key => object[key] === value)\<close>; \<^verbatim>\<open>find\<close> returns
  \<^verbatim>\<open>undefined\<close> when no element passes.
\<close>

definition getEnumKeyFromValue :: "(string \<times> int) list \<Rightarrow> int \<Rightarrow> js_value" where
  "getEnumKeyFromValue object v =
     (case find (\<lambda>key. map_of object key = Some v) (map fst object) of
        None \<Rightarrow> JSUndefined
      | Some key \<Rightarrow> JSString key)"

text \<open>
  Modelled from the spec: \<^verbatim>\<open>mapTFDtypeToJSDtype\<close> is called at line 128, and at line 148
  under the name \<^verbatim>\<open>mapTFDtypeToFSDtype\<close>; neither name is defined in the source file, and
  both stand for the mapper of the specification. The specification (section 4.1) has the
  mapper fail
  with \<open>UnknownDtype\<close> when the code has no symbolic name, map a symbolic name to its
  portable dtype, and fail with \<open>UnsupportedDtype\<close> when the name has no portable
  equivalent. The table of portable equivalents is the parameter \<open>portable\<close>.
\<close>

definition mapTFDtypeToJSDtype :: "(string \<times> string) list \<Rightarrow> js_value \<Rightarrow> error + string" where
  "mapTFDtypeToJSDtype portable key =
     (case key of
        JSString n \<Rightarrow>
          (case map_of portable n of
             Some d \<Rightarrow> Inr d
           | None \<Rightarrow> Inl (UnsupportedDtype n))
      | _ \<Rightarrow> Inl UnknownDtype)"

subsection \<open>Extracting the metagraphs of a SavedModel\<close>

text \<open>
  The deserialized protobuf message, by the getters the extractor calls.
  \<open>getDimList\<close> stands for \<^verbatim>\<open>getTensorShape().getDimList()\<close> and \<open>getTagsList\<close> for
  \<^verbatim>\<open>getMetaInfoDef().getTagsList()\<close>. The enum object \<^verbatim>\<open>messages.DataType\<close> comes with the
  generated protobuf module, which is not in the source: it is the parameter \<open>DataType\<close>.
\<close>

record TensorInfoMessage =
  getName :: string
  getDtype :: int
  getDimList :: "int list"

record SignatureDefMessage =
  getInputsMap :: "(string \<times> TensorInfoMessage) list"
  getOutputsMap :: "(string \<times> TensorInfoMessage) list"

record MetaGraphMessage =
  getTagsList :: "string list"
  getSignatureDefMap :: "(string \<times> SignatureDefMessage) list"

record SavedModelMessage =
  getMetaGraphsList :: "MetaGraphMessage list"

record 't MetaGraph =
  tags :: "string list"
  signatureDefs :: "(string \<times> 't SignatureDefEntry) list"

text \<open>
  Lines 119 to 133, the loop over the keys of the input tensors. Line 124 declares
  \<^verbatim>\<open>inputTensor\<close> and line 127 reads \<^verbatim>\<open>inputTensr\<close>: the first pass through the body throws
  \<open>ReferenceError\<close> before the dtype is looked up, and lines 128 to 132 are not reached.
\<close>

fun inputs_loop ::
  "(string \<times> TensorInfoMessage) list \<Rightarrow> string list \<Rightarrow> (string \<times> ModelTensorInfo) list
     \<Rightarrow> error + (string \<times> ModelTensorInfo) list" where
  "inputs_loop inputsMapMessage [] acc = Inr acc"
| "inputs_loop inputsMapMessage (k # ks) acc =
     (let inputTensor = map_of inputsMapMessage k in Inl ReferenceError)"

text \<open>
  Lines 144 to 150: the body of the loop over the output tensors. Line 150 assigns the
  dimension list to \<^verbatim>\<open>name\<close>; no statement assigns \<^verbatim>\<open>shape\<close>.
\<close>

definition outputTensorInfo ::
  "(string \<times> int) list \<Rightarrow> (string \<times> string) list \<Rightarrow> TensorInfoMessage
     \<Rightarrow> error + ModelTensorInfo" where
  "outputTensorInfo DataType portable outputTensor =
     (let dt = getEnumKeyFromValue DataType (getDtype outputTensor)
      in case mapTFDtypeToJSDtype portable dt of
           Inl e \<Rightarrow> Inl e
         | Inr d \<Rightarrow>
             Inr \<lparr>name = JSArray (getDimList outputTensor), dtype = d, tfDtype = dt,
                  shape = JSUndefined\<rparr>)"

text \<open>
  Lines 139 to 152, the loop over the keys of the output tensors: it reads each value
  with \<^verbatim>\<open>get\<close> and ends when the key iterator is done.
\<close>

fun outputs_loop ::
  "(string \<times> int) list \<Rightarrow> (string \<times> string) list \<Rightarrow> (string \<times> TensorInfoMessage) list
     \<Rightarrow> string list \<Rightarrow> (string \<times> ModelTensorInfo) list
     \<Rightarrow> error + (string \<times> ModelTensorInfo) list" where
  "outputs_loop DataType portable outputsMapMessage [] acc = Inr acc"
| "outputs_loop DataType portable outputsMapMessage (k # ks) acc =
     (case map_of outputsMapMessage k of
        None \<Rightarrow> Inl TypeError
      | Some outputTensor \<Rightarrow>
          (case outputTensorInfo DataType portable outputTensor of
             Inl e \<Rightarrow> Inl e
           | Inr info \<Rightarrow>
               outputs_loop DataType portable outputsMapMessage ks (AList.update k info acc)))"

text \<open>
  The loop over the signature keys of one metagraph (lines 104 to 155). The key of the
  initializer is skipped. For any other key, line 113 declares \<^verbatim>\<open>signatueDefEntry\<close> and
  line 116 reads \<^verbatim>\<open>signatureDefEntry\<close>: the body throws \<open>ReferenceError\<close> there, and the two
  inner loops and the write of line 154 are not reached.
\<close>

fun signatureDef_loop ::
  "(string \<times> SignatureDefMessage) list \<Rightarrow> string list
     \<Rightarrow> (string \<times> ModelTensorInfo SignatureDefEntry) list
     \<Rightarrow> error + (string \<times> ModelTensorInfo SignatureDefEntry) list" where
  "signatureDef_loop signatureDefMap [] signatureDef = Inr signatureDef"
| "signatureDef_loop signatureDefMap (k # ks) signatureDef =
     (if k = SAVED_MODEL_INIT_OP_KEY then
        signatureDef_loop signatureDefMap ks signatureDef
      else
        (let signatueDefEntry = map_of signatureDefMap k in Inl ReferenceError))"

text \<open>
  The loop over the metagraphs (lines 93 to 159). After the loop over the signature keys,
  line 156 reads \<^verbatim>\<open>signatuerDef\<close> where line 99 declares \<^verbatim>\<open>signatureDef\<close>: the first pass
  through the body throws \<open>ReferenceError\<close> there at the latest, and \<^verbatim>\<open>result.push\<close> is not
  reached.
\<close>

fun metaGraph_loop ::
  "MetaGraphMessage list \<Rightarrow> ModelTensorInfo MetaGraph list
     \<Rightarrow> error + ModelTensorInfo MetaGraph list" where
  "metaGraph_loop [] result = Inr result"
| "metaGraph_loop (m # ms) result =
     (case signatureDef_loop (getSignatureDefMap m) (map fst (getSignatureDefMap m)) [] of
        Inl e \<Rightarrow> Inl e
      | Inr signatureDef \<Rightarrow> Inl ReferenceError)"

text \<open>
  Lines 85 to 160. Line 92 calls \<^verbatim>\<open>getMetaGraphsList\<close> on what \<^verbatim>\<open>readSavedModelProto\<close>
  resolved to; on \<^verbatim>\<open>undefined\<close> that is a \<open>TypeError\<close>.
\<close>

definition getMetaGraphsFromSavedModel ::
  "string set \<Rightarrow> string \<Rightarrow> error + ModelTensorInfo MetaGraph list" where
  "getMetaGraphsFromSavedModel readable p =
     (case readSavedModelProto readable p of
        Inl e \<Rightarrow> Inl e
      | Inr None \<Rightarrow> Inl TypeError
      | Inr (Some modelMessage) \<Rightarrow>
          metaGraph_loop (getMetaGraphsList (modelMessage :: SavedModelMessage)) [])"

subsection \<open>Resolving a signature\<close>







subsection \<open>Concrete handles, registries and artifacts\<close>

definition example_entry :: SavedModelEntry where
  "example_entry = \<lparr>path = ''/m'', SavedModelEntry.tags = [''serve''], SavedModelEntry.sessionId = 7\<rparr>"

definition handle_A :: TFSavedModel where
  "handle_A = \<lparr>disposed = False, sessionId = 7, jsid = 0,
                signature = \<lparr>inputs = [], outputs = []\<rparr>\<rparr>"

definition handle_B :: TFSavedModel where
  "handle_B = \<lparr>disposed = False, sessionId = 7, jsid = 1,
                signature = \<lparr>inputs = [], outputs = []\<rparr>\<rparr>"

definition world_AB :: world where
  "world_AB = \<lparr>loadedSavedModelPathMap = [(0, example_entry), (1, example_entry)],
                deleteSavedModel_calls = []\<rparr>"


definition example_DataType :: "(string \<times> int) list" where
  "example_DataType =
     [(''DT_INVALID'', 0), (''DT_FLOAT'', 1), (''DT_DOUBLE'', 2), (''DT_INT32'', 3),
      (''DT_STRING'', 7), (''DT_COMPLEX64'', 8), (''DT_BOOL'', 10)]"

definition example_portable :: "(string \<times> string) list" where
  "example_portable =
     [(''DT_FLOAT'', ''float32''), (''DT_INT32'', ''int32''), (''DT_BOOL'', ''bool''),
      (''DT_COMPLEX64'', ''complex64''), (''DT_STRING'', ''string'')]"

definition example_predict :: SignatureDefMessage where
  "example_predict =
     \<lparr>getInputsMap =
        [(''x'', \<lparr>getName = ''input_x:0'', getDtype = 1, getDimList = [-1, 4]\<rparr>)],
      getOutputsMap =
        [(''y'', \<lparr>getName = ''output:0'', getDtype = 1, getDimList = [-1, 2]\<rparr>)]\<rparr>"

definition example_message :: SavedModelMessage where
  "example_message =
     \<lparr>getMetaGraphsList =
        [\<lparr>getTagsList = [''serve''],
          getSignatureDefMap =
            [(''__saved_model_init_op'',
              \<lparr>getInputsMap = [],
                getOutputsMap =
                  [(''__saved_model_init_op'',
                    \<lparr>getName = ''NoOp'', getDtype = 0, getDimList = []\<rparr>)]\<rparr>),
             (''predict'', example_predict)]\<rparr>]\<rparr>"

definition example_info :: "string \<Rightarrow> ModelTensorInfo" where
  "example_info n =
     \<lparr>name = JSString n, dtype = ''float32'', tfDtype = JSString ''DT_FLOAT'',
      shape = JSArray [-1, 4]\<rparr>"

definition example_store :: store where
  "example_store a =
     (if a = 0 then example_info ''output:0''
      else if a = 1 then example_info ''output''
      else example_info ''x:0:0'')"

definition example_handle :: TFSavedModel where
  "example_handle =
     \<lparr>disposed = False, sessionId = 7, jsid = 0,
      signature = \<lparr>inputs = [(''a'', 0), (''b'', 1)], outputs = [(''c'', 2)]\<rparr>\<rparr>"

section \<open>Disposing a handle\<close>

lemma dispose_scan_keys:
  "set ks \<subseteq> dom (map_of m) \<Longrightarrow>
   dispose_scan ks m sid =
     Inr (\<exists>k\<in>set ks. \<exists>v. map_of m k = Some v \<and> SavedModelEntry.sessionId v = sid)"
  by (induction ks) (auto split: option.splits)

lemma dispose_scan_all:
  "dispose_scan (map fst m) m sid = Inr (sid \<in> SavedModelEntry.sessionId ` ran (map_of m))"
proof -
  have "set (map fst m) \<subseteq> dom (map_of m)"
    by (simp add: dom_map_of_conv_image_fst)
  then have "dispose_scan (map fst m) m sid =
     Inr (\<exists>k\<in>set (map fst m). \<exists>v. map_of m k = Some v \<and> SavedModelEntry.sessionId v = sid)"
    by (rule dispose_scan_keys)
  moreover have "(\<exists>k\<in>set (map fst m). \<exists>v. map_of m k = Some v \<and> SavedModelEntry.sessionId v = sid)
     \<longleftrightarrow> sid \<in> SavedModelEntry.sessionId ` ran (map_of m)"
    by (auto simp: ran_def image_iff dest: map_of_SomeD intro: rev_bexI) 
  ultimately show ?thesis by simp
qed

lemma dispose_live:
  "\<not> disposed h \<Longrightarrow>
   dispose h w =
     Inr (h\<lparr>disposed := True\<rparr>,
          w\<lparr>loadedSavedModelPathMap := AList.delete (jsid h) (loadedSavedModelPathMap w),
            deleteSavedModel_calls :=
              (if TFSavedModel.sessionId h \<in> SavedModelEntry.sessionId `
                    ran (map_of (AList.delete (jsid h) (loadedSavedModelPathMap w)))
               then deleteSavedModel_calls w
               else deleteSavedModel_calls w @ [TFSavedModel.sessionId h])\<rparr>)"
  by (simp add: dispose_def Let_def dispose_scan_all)

lemma session_still_referenced:
  assumes "map_of reg kb = Some e" "SavedModelEntry.sessionId e = sid" "kb \<noteq> ka"
  shows "sid \<in> SavedModelEntry.sessionId ` ran (map_of (AList.delete ka reg))"
proof -
  have "map_of (AList.delete ka reg) kb = Some e"
    using assms by (simp add: delete_conv')
  then show ?thesis using assms(2) by (auto simp: ran_def image_iff intro!: exI)
qed

lemma session_unreferenced:
  assumes "\<forall>k e. map_of reg k = Some e \<and> SavedModelEntry.sessionId e = sid \<longrightarrow> k = ka \<or> k = kb"
  shows "sid \<notin> SavedModelEntry.sessionId ` ran (map_of (AList.delete kb (AList.delete ka reg)))"
proof
  assume "sid \<in> SavedModelEntry.sessionId ` ran (map_of (AList.delete kb (AList.delete ka reg)))"
  then obtain k e where ke: "map_of (AList.delete kb (AList.delete ka reg)) k = Some e"
      "SavedModelEntry.sessionId e = sid"
    by (auto simp: ran_def)
  then have "k \<noteq> ka" "k \<noteq> kb" "map_of reg k = Some e"
    by (auto simp: delete_conv' split: if_splits)
  with assms ke(2) show False by blast
qed

text \<open>
  Claim C1. Disposing a live handle first removes the handle's entry from the registry and
  then calls \<^verbatim>\<open>backend.deleteSavedModel\<close> with the handle's session id if and only if no
  entry that is left in the registry carries that session id. With two registered handles
  that share a session id which no third entry carries, disposing one leaves the session
  alive and disposing the other one afterwards deletes it.
\<close>

theorem dispose_destroys_session_iff_unreferenced:
  assumes "\<not> disposed h"
  shows "dispose h w =
     Inr (h\<lparr>disposed := True\<rparr>,
          w\<lparr>loadedSavedModelPathMap := AList.delete (jsid h) (loadedSavedModelPathMap w),
            deleteSavedModel_calls :=
              (if TFSavedModel.sessionId h \<in> SavedModelEntry.sessionId `
                    ran (map_of (AList.delete (jsid h) (loadedSavedModelPathMap w)))
               then deleteSavedModel_calls w
               else deleteSavedModel_calls w @ [TFSavedModel.sessionId h])\<rparr>)
   \<and> (\<forall>b. \<not> disposed b \<and> jsid b \<noteq> jsid h
          \<and> TFSavedModel.sessionId b = TFSavedModel.sessionId h
          \<and> (\<exists>e. map_of (loadedSavedModelPathMap w) (jsid b) = Some e
                \<and> SavedModelEntry.sessionId e = TFSavedModel.sessionId h)
          \<and> (\<forall>k e. map_of (loadedSavedModelPathMap w) k = Some e
                \<and> SavedModelEntry.sessionId e = TFSavedModel.sessionId h
                \<longrightarrow> k = jsid h \<or> k = jsid b)
        \<longrightarrow> (\<exists>w1 w2.
               dispose h w = Inr (h\<lparr>disposed := True\<rparr>, w1)
             \<and> deleteSavedModel_calls w1 = deleteSavedModel_calls w
             \<and> dispose b w1 = Inr (b\<lparr>disposed := True\<rparr>, w2)
             \<and> deleteSavedModel_calls w2 =
                 deleteSavedModel_calls w @ [TFSavedModel.sessionId h]))"
proof (intro conjI allI impI)
  show "dispose h w =
     Inr (h\<lparr>disposed := True\<rparr>,
          w\<lparr>loadedSavedModelPathMap := AList.delete (jsid h) (loadedSavedModelPathMap w),
            deleteSavedModel_calls :=
              (if TFSavedModel.sessionId h \<in> SavedModelEntry.sessionId `
                    ran (map_of (AList.delete (jsid h) (loadedSavedModelPathMap w)))
               then deleteSavedModel_calls w
               else deleteSavedModel_calls w @ [TFSavedModel.sessionId h])\<rparr>)"
    using assms by (rule dispose_live)
next
  fix b :: TFSavedModel
  let ?reg = "loadedSavedModelPathMap w"
  let ?sid = "TFSavedModel.sessionId h"
  assume b: "\<not> disposed b \<and> jsid b \<noteq> jsid h
          \<and> TFSavedModel.sessionId b = ?sid
          \<and> (\<exists>e. map_of ?reg (jsid b) = Some e \<and> SavedModelEntry.sessionId e = ?sid)
          \<and> (\<forall>k e. map_of ?reg k = Some e \<and> SavedModelEntry.sessionId e = ?sid
                \<longrightarrow> k = jsid h \<or> k = jsid b)"
  define w1 where "w1 = w\<lparr>loadedSavedModelPathMap := AList.delete (jsid h) ?reg\<rparr>"
  define w2 where "w2 = w1\<lparr>loadedSavedModelPathMap := AList.delete (jsid b) (AList.delete (jsid h) ?reg),
      deleteSavedModel_calls := deleteSavedModel_calls w @ [?sid]\<rparr>"
  from b have still: "?sid \<in> SavedModelEntry.sessionId ` ran (map_of (AList.delete (jsid h) ?reg))"
    by (auto intro: session_still_referenced)
  from b have gone: "?sid \<notin> SavedModelEntry.sessionId `
      ran (map_of (AList.delete (jsid b) (AList.delete (jsid h) ?reg)))"
    by (intro session_unreferenced) blast
  have 1: "dispose h w = Inr (h\<lparr>disposed := True\<rparr>, w1)"
    using dispose_live [OF assms, of w] still by (simp add: w1_def)
  have 2: "dispose b w1 = Inr (b\<lparr>disposed := True\<rparr>, w2)"
    using b dispose_live [of b w1] gone by (simp add: w1_def w2_def)
  show "\<exists>w1 w2.
         dispose h w = Inr (h\<lparr>disposed := True\<rparr>, w1)
       \<and> deleteSavedModel_calls w1 = deleteSavedModel_calls w
       \<and> dispose b w1 = Inr (b\<lparr>disposed := True\<rparr>, w2)
       \<and> deleteSavedModel_calls w2 = deleteSavedModel_calls w @ [?sid]"
    using 1 2 by (intro exI [of _ w1] exI [of _ w2]) (simp add: w1_def w2_def)
qed

theorem dispose_destroys_session_iff_unreferenced_witness:
  "\<not> disposed handle_A
   \<and> dispose handle_A world_AB =
       Inr (handle_A\<lparr>disposed := True\<rparr>,
            \<lparr>loadedSavedModelPathMap = [(1, example_entry)], deleteSavedModel_calls = []\<rparr>)
   \<and> dispose handle_B
         \<lparr>loadedSavedModelPathMap = [(1, example_entry)], deleteSavedModel_calls = []\<rparr> =
       Inr (handle_B\<lparr>disposed := True\<rparr>,
            \<lparr>loadedSavedModelPathMap = [], deleteSavedModel_calls = [7]\<rparr>)
   \<and> dispose handle_B world_AB =
       Inr (handle_B\<lparr>disposed := True\<rparr>,
            \<lparr>loadedSavedModelPathMap = [(0, example_entry)], deleteSavedModel_calls = []\<rparr>)
   \<and> dispose handle_A
         \<lparr>loadedSavedModelPathMap = [(0, example_entry)], deleteSavedModel_calls = []\<rparr> =
       Inr (handle_A\<lparr>disposed := True\<rparr>,
            \<lparr>loadedSavedModelPathMap = [], deleteSavedModel_calls = [7]\<rparr>)"
proof -
  have a: "\<not> disposed handle_A" and b: "\<not> disposed handle_B"
    by (simp_all add: handle_A_def handle_B_def)
  have r1: "ran (map_of [(1::int, example_entry)]) = {example_entry}"
    and r0: "ran (map_of [(0::int, example_entry)]) = {example_entry}"
    by (auto simp: ran_def)
  have s: "SavedModelEntry.sessionId example_entry = 7"
    by (simp add: example_entry_def)
  note t = dispose_destroys_session_iff_unreferenced
  from t [OF a, of world_AB] t [OF b, of "\<lparr>loadedSavedModelPathMap = [(1, example_entry)], deleteSavedModel_calls = []\<rparr>"]
    t [OF b, of world_AB] t [OF a, of "\<lparr>loadedSavedModelPathMap = [(0, example_entry)], deleteSavedModel_calls = []\<rparr>"]
  show ?thesis
    using a r1 r0 s by (simp add: world_AB_def handle_A_def handle_B_def AList.delete_eq)
qed

text \<open>
  Claim C4. The first \<^verbatim>\<open>dispose\<close> of a live handle succeeds and leaves the handle disposed,
  its other fields as they were; every later \<^verbatim>\<open>dispose\<close> of that handle, in whatever state
  the registry is, throws the error "This SavedModel has already been deleted." and returns
  nothing.
\<close>

theorem second_dispose_fails:
  assumes "\<not> disposed h"
  shows "\<exists>h' w'. dispose h w = Inr (h', w') \<and> disposed h'
           \<and> jsid h' = jsid h \<and> TFSavedModel.sessionId h' = TFSavedModel.sessionId h
           \<and> signature h' = signature h
           \<and> (\<forall>w''. dispose h' w'' = Inl (Error ''This SavedModel has already been deleted.''))"
  using dispose_live [OF assms, of w] by (simp add: dispose_def)

theorem second_dispose_fails_witness:
  "\<not> disposed handle_A
   \<and> dispose handle_A world_AB =
       Inr (handle_A\<lparr>disposed := True\<rparr>,
            \<lparr>loadedSavedModelPathMap = [(1, example_entry)], deleteSavedModel_calls = []\<rparr>)
   \<and> dispose (handle_A\<lparr>disposed := True\<rparr>)
         \<lparr>loadedSavedModelPathMap = [(1, example_entry)], deleteSavedModel_calls = []\<rparr> =
       Inl (Error ''This SavedModel has already been deleted.'')"
proof -
  have a: "\<not> disposed handle_A"
    by (simp add: handle_A_def)
  have r1: "ran (map_of [(1::int, example_entry)]) = {example_entry}"
    by (auto simp: ran_def)
  have s: "SavedModelEntry.sessionId example_entry = 7"
    by (simp add: example_entry_def)
  have d: "dispose handle_A world_AB =
       Inr (handle_A\<lparr>disposed := True\<rparr>,
            \<lparr>loadedSavedModelPathMap = [(1, example_entry)], deleteSavedModel_calls = []\<rparr>)"
    using a r1 s by (simp add: dispose_live world_AB_def handle_A_def AList.delete_eq)
  from second_dispose_fails [OF a, of world_AB] d a show ?thesis
    by auto
qed

section \<open>Resolving a signature\<close>









section \<open>Reading the SavedModel file\<close>

text \<open>
  Claim C9 fails on the code. \<^verbatim>\<open>readSavedModelProto\<close> checks read access to
  \<^verbatim>\<open>path + '/saved_model.pb'\<close> and, when the file is not readable, throws the error
  "There is no saved_model.pb file in the directory: " followed by the path, as the claim
  has it. When the file is readable it does not go on to deserialize it: the function ends
  after the check and resolves to \<^verbatim>\<open>undefined\<close>, against its own comment at line 66 ("Load
  the SavedModel pb file and deserialize it into message").
\<close>

theorem load_ends_after_access_check:
  "readSavedModelProto readable p =
     (if p @ ''/saved_model.pb'' \<in> readable then Inr None
      else Inl (Error (''There is no saved_model.pb file in the directory: '' @ p)))"
  by (simp add: readSavedModelProto_def SAVED_MODEL_FILE_NAME_def)

section \<open>Dtypes\<close>



lemma getEnumKeyFromValue_cases:
  "getEnumKeyFromValue object v = JSUndefined \<or> (\<exists>k. getEnumKeyFromValue object v = JSString k)"
  by (auto simp: getEnumKeyFromValue_def split: option.splits)



lemma lookup_1: "getEnumKeyFromValue example_DataType 1 = JSString ''DT_FLOAT''"
  by (simp add: getEnumKeyFromValue_def example_DataType_def)




section \<open>Extracting the metagraphs\<close>

lemma signatureDef_loop_as_written:
  "signatureDef_loop signatureDefMap ks acc =
     (if set ks \<subseteq> {SAVED_MODEL_INIT_OP_KEY} then Inr acc else Inl ReferenceError)"
  by (induction ks) (simp_all add: Let_def)

lemma metaGraph_loop_as_written:
  "metaGraph_loop (m # ms) result = Inl ReferenceError"
  by (simp add: signatureDef_loop_as_written)

lemma getMetaGraphsFromSavedModel_as_written:
  "getMetaGraphsFromSavedModel readable p =
     (if p @ ''/saved_model.pb'' \<in> readable then Inl TypeError
      else Inl (Error (''There is no saved_model.pb file in the directory: '' @ p)))"
  by (simp add: getMetaGraphsFromSavedModel_def readSavedModelProto_def
      SAVED_MODEL_FILE_NAME_def)

text \<open>
  Claim C8 fails on the code. The loop over the signature keys does skip the key
  \<^verbatim>\<open>__saved_model_init_op\<close>: a pass over keys that are all that key leaves \<^verbatim>\<open>signatureDef\<close>
  as it was. It stores no other entry under its key: at the first other key it throws
  \<open>ReferenceError\<close> (line 116 reads \<^verbatim>\<open>signatureDefEntry\<close>, line 113 declares
  \<^verbatim>\<open>signatueDefEntry\<close>), and a metagraph whose keys it gets through throws at line 156
  (\<^verbatim>\<open>signatuerDef\<close>), so no \<^verbatim>\<open>MetaGraphInfo\<close> is produced for any metagraph.
\<close>

theorem extractor_stores_no_signature:
  "signatureDef_loop signatureDefMap ks signatureDef =
     (if set ks \<subseteq> {''__saved_model_init_op''} then Inr signatureDef else Inl ReferenceError)
   \<and> metaGraph_loop (m # ms) result = Inl ReferenceError
   \<and> metaGraph_loop (getMetaGraphsList example_message) [] = Inl ReferenceError"
  using signatureDef_loop_as_written [of signatureDefMap ks signatureDef]
    metaGraph_loop_as_written [of m ms result]
  by (simp add: SAVED_MODEL_INIT_OP_KEY_def example_message_def signatureDef_loop_as_written)

text \<open>
  Claim C3 fails on the code. The body of the loop over the output tensors assigns the
  tensor's dimension list to \<^verbatim>\<open>name\<close> (line 150) and never assigns \<^verbatim>\<open>shape\<close>. On the outputs
  of the signature \<open>predict\<close>, whose one tensor \<open>y\<close> is \<open>output:0\<close> of shape \<open>[-1, 2]\<close>, the
  loop builds for \<open>y\<close> a tensor info named \<open>[-1, 2]\<close> that has no shape.
\<close>

theorem extractor_output_name_holds_dim_list:
  "outputs_loop example_DataType example_portable (getOutputsMap example_predict)
      (map fst (getOutputsMap example_predict)) [] =
     Inr [(''y'', \<lparr>name = JSArray [-1, 2], dtype = ''float32'',
                   tfDtype = JSString ''DT_FLOAT'', shape = JSUndefined\<rparr>)]"
  by (simp add: example_predict_def outputTensorInfo_def lookup_1 mapTFDtypeToJSDtype_def
      example_portable_def)

section \<open>The accessors\<close>

lemma suffix_colon0_rev:
  "suffix '':0'' s \<longleftrightarrow> (\<exists>r. rev s = CHR ''0'' # CHR '':'' # r)"
proof
  assume "suffix '':0'' s"
  then obtain zs where "s = zs @ '':0''" by (auto simp: suffix_def)
  then show "\<exists>r. rev s = CHR ''0'' # CHR '':'' # r" by simp
next
  assume "\<exists>r. rev s = CHR ''0'' # CHR '':'' # r"
  then obtain r where "rev s = CHR ''0'' # CHR '':'' # r" by blast
  then have "rev (rev s) = rev (CHR ''0'' # CHR '':'' # r)" by simp
  then have "s = rev r @ '':0''" by simp
  then show "suffix '':0'' s" by (simp add: suffix_def)
qed

lemma replace_colon0_append: "replace_colon0 (n @ '':0'') = n"
  by (simp add: replace_colon0_def)

lemma replace_colon0_no_suffix: "\<not> suffix '':0'' n \<Longrightarrow> replace_colon0 n = n"
  by (auto simp: replace_colon0_def suffix_colon0_rev split: list.splits char.splits bool.splits)

lemma replace_colon0_suffix: "suffix '':0'' n \<Longrightarrow> n = replace_colon0 n @ '':0''"
  by (auto simp: suffix_def replace_colon0_append)

lemma suffix_colon0_replace: "suffix '':0'' (replace_colon0 n) \<longleftrightarrow> suffix '':0:0'' n"
proof (cases "suffix '':0'' n")
  case True
  then obtain m where n: "n = m @ '':0''" by (auto simp: suffix_def)
  have "suffix '':0:0'' (m @ '':0'') \<longleftrightarrow> suffix '':0'' m"
    using suffix_append [of "'':0''" m "'':0''"] same_suffix_suffix [of "'':0''" "'':0''" m]
    by (metis append_Cons append_Nil same_suffix_suffix)
  with n show ?thesis by (simp add: replace_colon0_append)
next
  case False
  moreover have "\<not> suffix '':0:0'' n"
  proof
    assume "suffix '':0:0'' n"
    then obtain zs where "n = zs @ '':0:0''" by (auto simp: suffix_def)
    then have "n = (zs @ '':0'') @ '':0''" by simp
    then have "suffix '':0'' n" unfolding suffix_def by blast
    with False show False by simp
  qed
  ultimately show ?thesis by (simp add: replace_colon0_no_suffix)
qed

lemma forEach_replace_frame:
  "forEach_replace as s = (r, s') \<Longrightarrow> a \<notin> set as \<Longrightarrow> s' a = s a"
  by (induction as arbitrary: s) (auto split: js_value.splits)

lemma forEach_replace_fields:
  "forEach_replace as s = (r, s') \<Longrightarrow>
   dtype (s' a) = dtype (s a) \<and> tfDtype (s' a) = tfDtype (s a) \<and> shape (s' a) = shape (s a)"
proof (induction as arbitrary: s)
  case Nil
  then show ?case by simp
next
  case (Cons a0 as)
  show ?case
  proof (cases "name (s a0)")
    case (JSString n)
    with Cons.prems have
      "forEach_replace as (s(a0 := (s a0)\<lparr>name := JSString (replace_colon0 n)\<rparr>)) = (r, s')"
      by simp
    from Cons.IH [OF this] show ?thesis by (simp split: if_splits)
  qed (use Cons.prems in simp_all)
qed

lemma forEach_replace_kept:
  "forEach_replace as s = (r, s') \<Longrightarrow>
   (\<forall>n. name (s a) = JSString n \<longrightarrow> suffix '':0'' n \<longrightarrow> False) \<Longrightarrow> name (s' a) = name (s a)"
proof (induction as arbitrary: s)
  case Nil
  then show ?case by simp
next
  case (Cons a0 as)
  show ?case
  proof (cases "name (s a0)")
    case (JSString n)
    let ?s1 = "s(a0 := (s a0)\<lparr>name := JSString (replace_colon0 n)\<rparr>)"
    from JSString Cons.prems(1) have run: "forEach_replace as ?s1 = (r, s')"
      by simp
    have same: "name (?s1 a) = name (s a)"
      using JSString Cons.prems(2) by (auto simp: replace_colon0_no_suffix)
    with Cons.prems(2) have "\<forall>n. name (?s1 a) = JSString n \<longrightarrow> suffix '':0'' n \<longrightarrow> False"
      by simp
    from Cons.IH [OF run this] same show ?thesis by simp
  qed (use Cons.prems in simp_all)
qed

lemma forEach_replace_returns:
  "(\<forall>a\<in>set as. \<exists>n. name (s a) = JSString n) \<Longrightarrow> \<exists>s'. forEach_replace as s = (None, s')"
proof (induction as arbitrary: s)
  case Nil
  then show ?case by simp
next
  case (Cons a0 as)
  then obtain n where n: "name (s a0) = JSString n" by auto
  let ?s1 = "s(a0 := (s a0)\<lparr>name := JSString (replace_colon0 n)\<rparr>)"
  from Cons.prems have "\<forall>a\<in>set as. \<exists>m. name (?s1 a) = JSString m"
    by auto
  from Cons.IH [OF this] obtain s' where "forEach_replace as ?s1 = (None, s')"
    by blast
  with n have "forEach_replace (a0 # as) s = (None, s')"
    by simp
  then show ?case by blast
qed

lemma forEach_replace_strings:
  "forEach_replace as s = (None, s') \<Longrightarrow> a \<in> set as \<Longrightarrow>
   (\<exists>n. name (s a) = JSString n) \<and> (\<exists>n. name (s' a) = JSString n)"
proof (induction as arbitrary: s)
  case Nil
  then show ?case by simp
next
  case (Cons a0 as)
  from Cons.prems(1) obtain n where n: "name (s a0) = JSString n"
    by (cases "name (s a0)") simp_all
  let ?s1 = "s(a0 := (s a0)\<lparr>name := JSString (replace_colon0 n)\<rparr>)"
  from n Cons.prems(1) have run: "forEach_replace as ?s1 = (None, s')"
    by simp
  show ?case
  proof (cases "a \<in> set as")
    case True
    from Cons.IH [OF run True] n show ?thesis
      by (auto split: if_splits)
  next
    case False
    with Cons.prems(2) have "a = a0" by simp
    moreover from forEach_replace_frame [OF run False] have "s' a = ?s1 a" .
    ultimately show ?thesis using n by simp
  qed
qed

lemma forEach_replace_distinct:
  "forEach_replace as s = (None, s') \<Longrightarrow> distinct as \<Longrightarrow> a \<in> set as \<Longrightarrow>
   \<exists>n. name (s a) = JSString n \<and> name (s' a) = JSString (replace_colon0 n)"
proof (induction as arbitrary: s)
  case Nil
  then show ?case by simp
next
  case (Cons a0 as)
  from Cons.prems(1) obtain n where n: "name (s a0) = JSString n"
    by (cases "name (s a0)") simp_all
  let ?s1 = "s(a0 := (s a0)\<lparr>name := JSString (replace_colon0 n)\<rparr>)"
  from n Cons.prems(1) have run: "forEach_replace as ?s1 = (None, s')"
    by simp
  from Cons.prems(2) have d: "distinct as" and fresh: "a0 \<notin> set as"
    by simp_all
  show ?case
  proof (cases "a = a0")
    case True
    with forEach_replace_frame [OF run fresh] n show ?thesis by simp
  next
    case False
    with Cons.prems(3) have "a \<in> set as" by simp
    from Cons.IH [OF run d this] False show ?thesis by simp
  qed
qed

lemma forEach_replace_noop:
  "(\<forall>a\<in>set as. \<exists>n. name (s a) = JSString n \<and> \<not> suffix '':0'' n) \<Longrightarrow>
   forEach_replace as s = (None, s)"
proof (induction as)
  case Nil
  then show ?case by simp
next
  case (Cons a0 as)
  then obtain n where n: "name (s a0) = JSString n" "\<not> suffix '':0'' n" by auto
  then have "s(a0 := (s a0)\<lparr>name := JSString (replace_colon0 n)\<rparr>) = s"
    by (auto simp: replace_colon0_no_suffix fun_upd_idem_iff intro: ModelTensorInfo.equality)
  with Cons n show ?case by simp
qed

lemma forEach_replace_stable:
  "forEach_replace as s = (None, s') \<Longrightarrow> set as \<subseteq> A \<Longrightarrow>
   (\<forall>a\<in>A. \<forall>n. name (s a) = JSString n \<longrightarrow> \<not> suffix '':0:0'' n) \<Longrightarrow>
   (\<forall>a\<in>set as. \<forall>n. name (s' a) = JSString n \<longrightarrow> \<not> suffix '':0'' n)"
proof (induction as arbitrary: s)
  case Nil
  then show ?case by simp
next
  case (Cons a0 as)
  from Cons.prems(1) obtain n where n: "name (s a0) = JSString n"
    by (cases "name (s a0)") simp_all
  let ?s1 = "s(a0 := (s a0)\<lparr>name := JSString (replace_colon0 n)\<rparr>)"
  from n Cons.prems(1) have run: "forEach_replace as ?s1 = (None, s')"
    by simp
  from Cons.prems(2) have sub: "set as \<subseteq> A" and a0: "a0 \<in> A" by simp_all
  from a0 n Cons.prems(3) have clean: "\<not> suffix '':0'' (replace_colon0 n)"
    by (simp add: suffix_colon0_replace)
  then have clean2: "\<not> suffix '':0:0'' (replace_colon0 n)"
    using suffix_colon0_replace [of "replace_colon0 n"]
    by (simp add: replace_colon0_no_suffix)
  from Cons.prems(3) clean2
  have inv: "\<forall>a\<in>A. \<forall>m. name (?s1 a) = JSString m \<longrightarrow> \<not> suffix '':0:0'' m"
    by simp
  have rest: "\<forall>a\<in>set as. \<forall>m. name (s' a) = JSString m \<longrightarrow> \<not> suffix '':0'' m"
    by (rule Cons.IH [OF run sub inv])
  show ?case
  proof (intro ballI allI impI)
    fix a m assume a: "a \<in> set (a0 # as)" and m: "name (s' a) = JSString m"
    show "\<not> suffix '':0'' m"
    proof (cases "a \<in> set as")
      case True
      with rest m show ?thesis by blast
    next
      case False
      with a have "a = a0" by simp
      with forEach_replace_frame [OF run False] m clean show ?thesis by simp
    qed
  qed
qed

lemma set_map_filter_Some:
  "set (List.map_filter f xs) = {y. \<exists>x\<in>set xs. f x = Some y}"
  by (induction xs) (auto split: option.splits)

lemma Object_values_subset: "set (Object_values entries) \<subseteq> snd ` set entries"
proof
  fix v assume "v \<in> set (Object_values entries)"
  then obtain k where "map_of entries k = Some v"
    by (auto simp: Object_values_def set_map_filter_Some)
  then have "(k, v) \<in> set entries" by (rule map_of_SomeD)
  then show "v \<in> snd ` set entries" by (auto intro: rev_image_eqI)
qed

lemma accessor_forEach:
  assumes "accessor = TFSavedModel_inputs \<or> accessor = TFSavedModel_outputs"
    and "accessor h s = (r, s')"
  shows "\<exists>as e. forEach_replace as s = (e, s')
     \<and> set as \<subseteq> snd ` set (inputs (signature h)) \<union> snd ` set (outputs (signature h))
     \<and> r = (case e of Some x \<Rightarrow> Inl x | None \<Rightarrow> Inr as)
     \<and> (\<forall>t. accessor h t =
           (case forEach_replace as t of (Some x, t') \<Rightarrow> (Inl x, t') | (None, t') \<Rightarrow> (Inr as, t')))"
  using assms(1)
proof
  assume acc: "accessor = TFSavedModel_inputs"
  let ?as = "Object_values (inputs (signature h))"
  obtain e t where run: "forEach_replace ?as s = (e, t)" by (cases "forEach_replace ?as s")
  with assms(2) acc have "s' = t" "r = (case e of Some x \<Rightarrow> Inl x | None \<Rightarrow> Inr ?as)"
    by (auto simp: TFSavedModel_inputs_def Let_def split: option.splits)
  moreover have "set ?as \<subseteq> snd ` set (inputs (signature h)) \<union> snd ` set (outputs (signature h))"
    using Object_values_subset [of "inputs (signature h)"] by blast
  moreover have "\<forall>t. accessor h t =
           (case forEach_replace ?as t of (Some x, t') \<Rightarrow> (Inl x, t') | (None, t') \<Rightarrow> (Inr ?as, t'))"
    by (simp add: acc TFSavedModel_inputs_def Let_def)
  ultimately show ?thesis using run by blast
next
  assume acc: "accessor = TFSavedModel_outputs"
  let ?as = "Object_values (outputs (signature h))"
  obtain e t where run: "forEach_replace ?as s = (e, t)" by (cases "forEach_replace ?as s")
  with assms(2) acc have "s' = t" "r = (case e of Some x \<Rightarrow> Inl x | None \<Rightarrow> Inr ?as)"
    by (auto simp: TFSavedModel_outputs_def Let_def split: option.splits)
  moreover have "set ?as \<subseteq> snd ` set (inputs (signature h)) \<union> snd ` set (outputs (signature h))"
    using Object_values_subset [of "outputs (signature h)"] by blast
  moreover have "\<forall>t. accessor h t =
           (case forEach_replace ?as t of (Some x, t') \<Rightarrow> (Inl x, t') | (None, t') \<Rightarrow> (Inr ?as, t'))"
    by (simp add: acc TFSavedModel_outputs_def Let_def)
  ultimately show ?thesis using run by blast
qed

lemma accessor_returned:
  assumes "accessor = TFSavedModel_inputs \<or> accessor = TFSavedModel_outputs"
    and "accessor h s = (Inr results, s')"
  shows "forEach_replace results s = (None, s')
     \<and> (\<forall>t. accessor h t =
           (case forEach_replace results t of
              (Some x, t') \<Rightarrow> (Inl x, t') | (None, t') \<Rightarrow> (Inr results, t')))"
proof -
  from accessor_forEach [OF assms] obtain as e where
    run: "forEach_replace as s = (e, s')"
    and r: "Inr results = (case e of Some x \<Rightarrow> Inl x | None \<Rightarrow> Inr as)"
    and all: "\<forall>t. accessor h t =
           (case forEach_replace as t of (Some x, t') \<Rightarrow> (Inl x, t') | (None, t') \<Rightarrow> (Inr as, t'))"
    by blast
  from r have "e = None" "as = results"
    by (cases e; simp)+
  with run all show ?thesis by blast
qed

lemma example_inputs_run:
  "TFSavedModel_inputs example_handle example_store =
     (Inr [0, 1],
      example_store(0 := example_info ''output'', 1 := example_info ''output''))"
  by (simp add: TFSavedModel_inputs_def Object_values_def example_handle_def
      example_store_def example_info_def replace_colon0_def)

lemma example_outputs_run:
  "TFSavedModel_outputs example_handle example_store =
     (Inr [2], example_store(2 := example_info ''x:0''))"
  by (simp add: TFSavedModel_outputs_def Object_values_def example_handle_def
      example_store_def example_info_def replace_colon0_def)

lemma example_outputs_rerun:
  "TFSavedModel_outputs example_handle (example_store(2 := example_info ''x:0'')) =
     (Inr [2], example_store(2 := example_info ''x''))"
  by (simp add: TFSavedModel_outputs_def Object_values_def example_handle_def
      example_store_def example_info_def replace_colon0_def)

text \<open>
  A tensor info built by the body of the loop over the output tensors has a dimension
  list for a name (line 150), which has no \<^verbatim>\<open>replace\<close> method: \<^verbatim>\<open>outputs\<close> throws on a
  handle whose signature binds one.
\<close>

lemma outputs_throws_on_extracted_output:
  "name (s a) = JSArray dims \<Longrightarrow>
   TFSavedModel_outputs (h\<lparr>signature := \<lparr>inputs = ins, outputs = [(k, a)]\<rparr>\<rparr>) s =
     (Inl TypeError, s)"
  by (simp add: TFSavedModel_outputs_def Object_values_def)

text \<open>
  Claim C5, as amended. For every tensor info an accessor returns, each a distinct object,
  the stored name is a string and the surfaced name is that string with one trailing
  \<^verbatim>\<open>:0\<close> taken off when it ends in \<^verbatim>\<open>:0\<close>, and that string itself when it does not:
  \<^verbatim>\<open>output:0\<close> is surfaced as \<^verbatim>\<open>output\<close> and \<^verbatim>\<open>output\<close> as \<^verbatim>\<open>output\<close>. So the surfaced
  name still ends in \<^verbatim>\<open>:0\<close> exactly when the stored name ended in \<^verbatim>\<open>:0:0\<close>.
\<close>

theorem accessor_strips_one_suffix:
  assumes "accessor = TFSavedModel_inputs \<or> accessor = TFSavedModel_outputs"
    and "accessor h s = (Inr results, s')"
    and "distinct results"
    and "a \<in> set results"
  shows "\<exists>n n'. name (s a) = JSString n \<and> name (s' a) = JSString n'
      \<and> (if suffix '':0'' n then n = n' @ '':0'' else n' = n)
      \<and> (suffix '':0'' n' \<longleftrightarrow> suffix '':0:0'' n)"
proof -
  from accessor_returned [OF assms(1,2)] have "forEach_replace results s = (None, s')"
    by blast
  from forEach_replace_distinct [OF this assms(3,4)] obtain n where
    n: "name (s a) = JSString n" "name (s' a) = JSString (replace_colon0 n)"
    by blast
  have "if suffix '':0'' n then n = replace_colon0 n @ '':0'' else replace_colon0 n = n"
    using replace_colon0_suffix [of n] replace_colon0_no_suffix [of n] by simp
  with n suffix_colon0_replace [of n] show ?thesis by blast
qed

theorem accessor_strips_one_suffix_witness:
  "TFSavedModel_inputs example_handle example_store =
     (Inr [0, 1], example_store(0 := example_info ''output'', 1 := example_info ''output''))
   \<and> distinct [0::nat, 1]
   \<and> name (example_store 0) = JSString ''output:0''
   \<and> name ((example_store(0 := example_info ''output'', 1 := example_info ''output'')) 0) =
       JSString ''output''
   \<and> name (example_store 1) = JSString ''output''
   \<and> name ((example_store(0 := example_info ''output'', 1 := example_info ''output'')) 1) =
       JSString ''output''"
proof -
  have d: "distinct [0::nat, 1]" by simp
  note t = accessor_strips_one_suffix [of TFSavedModel_inputs, OF _ example_inputs_run d]
  from t [of 0] t [of 1] show ?thesis
    using example_inputs_run by (simp add: example_store_def example_info_def)
qed

text \<open>
  The claim as it is written has no surfaced name end in \<^verbatim>\<open>:0\<close>. The regular expression
  matches once, at the end of the string: a tensor stored as \<^verbatim>\<open>x:0:0\<close> is surfaced as
  \<^verbatim>\<open>x:0\<close>.
\<close>

theorem surfaced_name_keeps_suffix_counterexample:
  "TFSavedModel_outputs example_handle example_store =
     (Inr [2], example_store(2 := example_info ''x:0''))
   \<and> name (example_store 2) = JSString ''x:0:0''
   \<and> name ((example_store(2 := example_info ''x:0'')) 2) = JSString ''x:0''
   \<and> suffix '':0'' ''x:0''"
  using example_outputs_run
  by (simp add: example_store_def example_info_def suffix_def)

text \<open>
  Claim C6, as amended. When a call of an accessor returns, on a handle disposed or not,
  the next call returns too, with the same sequence of tensor info objects. It leaves
  the store as the first call left it, so that both calls surface equal contents, when no
  name the first call surfaced ends in \<^verbatim>\<open>:0\<close>; that is so whenever no name bound by the
  signature ended in \<^verbatim>\<open>:0:0\<close> before the first call.
\<close>

theorem accessor_second_call:
  assumes "accessor = TFSavedModel_inputs \<or> accessor = TFSavedModel_outputs"
    and "accessor h s = (Inr results, s1)"
  shows "\<exists>s2. accessor h s1 = (Inr results, s2)
     \<and> ((\<forall>a\<in>set results. \<forall>n. name (s1 a) = JSString n \<longrightarrow> \<not> suffix '':0'' n) \<longrightarrow> s2 = s1)
     \<and> ((\<forall>a\<in>set results. \<forall>n. name (s a) = JSString n \<longrightarrow> \<not> suffix '':0:0'' n) \<longrightarrow> s2 = s1)"
proof -
  from accessor_returned [OF assms] have
    run: "forEach_replace results s = (None, s1)"
    and acc: "\<forall>t. accessor h t =
           (case forEach_replace results t of
              (Some x, t') \<Rightarrow> (Inl x, t') | (None, t') \<Rightarrow> (Inr results, t'))"
    by blast+
  have strings: "\<forall>a\<in>set results. \<exists>n. name (s1 a) = JSString n"
    using forEach_replace_strings [OF run] by blast
  from forEach_replace_returns [OF strings] obtain s2 where
    rerun: "forEach_replace results s1 = (None, s2)" by blast
  with acc have again: "accessor h s1 = (Inr results, s2)"
    by simp
  have clean: "s2 = s1"
    if "\<forall>a\<in>set results. \<forall>n. name (s1 a) = JSString n \<longrightarrow> \<not> suffix '':0'' n"
  proof -
    from strings that
    have "\<forall>a\<in>set results. \<exists>n. name (s1 a) = JSString n \<and> \<not> suffix '':0'' n"
      by blast
    from forEach_replace_noop [OF this] rerun show ?thesis by simp
  qed
  have "s2 = s1"
    if "\<forall>a\<in>set results. \<forall>n. name (s a) = JSString n \<longrightarrow> \<not> suffix '':0:0'' n"
    using forEach_replace_stable [OF run subset_refl that] by (rule clean)
  with again clean show ?thesis by blast
qed

theorem accessor_second_call_witness:
  "TFSavedModel_inputs example_handle example_store =
     (Inr [0, 1], example_store(0 := example_info ''output'', 1 := example_info ''output''))
   \<and> \<not> suffix '':0:0'' ''output:0'' \<and> \<not> suffix '':0:0'' ''output''
   \<and> TFSavedModel_inputs example_handle
        (example_store(0 := example_info ''output'', 1 := example_info ''output'')) =
     (Inr [0, 1], example_store(0 := example_info ''output'', 1 := example_info ''output''))"
proof -
  have n: "\<not> suffix '':0:0'' ''output:0''" "\<not> suffix '':0:0'' ''output''"
    by (simp_all add: suffix_to_prefix)
  then have "\<forall>a\<in>set [0, 1]. \<forall>n. name (example_store a) = JSString n \<longrightarrow> \<not> suffix '':0:0'' n"
    by (simp add: example_store_def example_info_def)
  with accessor_second_call [of TFSavedModel_inputs, OF _ example_inputs_run]
  have "TFSavedModel_inputs example_handle
        (example_store(0 := example_info ''output'', 1 := example_info ''output'')) =
     (Inr [0, 1], example_store(0 := example_info ''output'', 1 := example_info ''output''))"
    by auto
  with example_inputs_run n show ?thesis by simp
qed

text \<open>
  The claim as it is written has both calls surface equal sequences, whatever the names.
  The first call rewrites the stored names and the second call strips them again: a tensor
  stored as \<^verbatim>\<open>x:0:0\<close> is surfaced as \<^verbatim>\<open>x:0\<close> by the first call and as \<^verbatim>\<open>x\<close> by the second.
\<close>

theorem second_call_surfaces_other_names_counterexample:
  "TFSavedModel_outputs example_handle example_store =
     (Inr [2], example_store(2 := example_info ''x:0''))
   \<and> TFSavedModel_outputs example_handle (example_store(2 := example_info ''x:0'')) =
     (Inr [2], example_store(2 := example_info ''x''))
   \<and> map (example_store(2 := example_info ''x:0'')) [2] \<noteq>
       map (example_store(2 := example_info ''x'')) [2]"
  using example_outputs_run example_outputs_rerun
  by (simp add: example_info_def)

text \<open>
  Claim C7, as amended. An accessor does not write to the handle's own fields (it returns
  no new handle). Whether it returns or throws, it leaves the dtype, the native dtype and
  the shape of every tensor info as they were, leaves alone every tensor info the signature
  does not bind and every tensor info whose name is not a string ending in \<^verbatim>\<open>:0\<close>, and
  what it writes to a stored name is that name with trailing \<^verbatim>\<open>:0\<close> taken off.
\<close>

lemma forEach_replace_counted:
  "forEach_replace as s = (None, s') \<Longrightarrow> name (s a) = JSString n \<Longrightarrow>
   name (s' a) = JSString ((replace_colon0 ^^ count_list as a) n)"
proof (induction as arbitrary: s n)
  case Nil
  then show ?case by simp
next
  case (Cons a0 as)
  from Cons.prems(1) obtain m where m: "name (s a0) = JSString m"
    by (cases "name (s a0)") simp_all
  let ?s1 = "s(a0 := (s a0)\<lparr>name := JSString (replace_colon0 m)\<rparr>)"
  from m Cons.prems(1) have run: "forEach_replace as ?s1 = (None, s')"
    by simp
  show ?case
  proof (cases "a = a0")
    case True
    with m Cons.prems(2) have "name (?s1 a) = JSString (replace_colon0 n)"
      by simp
    from Cons.IH [OF run this] True show ?thesis
      by (simp add: funpow_swap1)
  next
    case False
    with Cons.prems(2) have "name (?s1 a) = JSString n" by simp
    from Cons.IH [OF run this] False show ?thesis by simp
  qed
qed

lemma accessor_entries:
  assumes "accessor = TFSavedModel_inputs \<and> entries = inputs (signature h)
           \<or> accessor = TFSavedModel_outputs \<and> entries = outputs (signature h)"
    and "accessor h s = (r, s')"
  shows "\<exists>e. forEach_replace (Object_values entries) s = (e, s')
           \<and> r = (case e of Some x \<Rightarrow> Inl x | None \<Rightarrow> Inr (Object_values entries))"
proof -
  obtain e t where run: "forEach_replace (Object_values entries) s = (e, t)"
    by (cases "forEach_replace (Object_values entries) s")
  from assms(1) have "accessor h s =
      (case forEach_replace (Object_values entries) s of
         (Some x, t') \<Rightarrow> (Inl x, t') | (None, t') \<Rightarrow> (Inr (Object_values entries), t'))"
  proof
    assume "accessor = TFSavedModel_inputs \<and> entries = inputs (signature h)"
    then show ?thesis
      by (simp add: TFSavedModel_inputs_def Let_def split: prod.splits option.splits)
  next
    assume "accessor = TFSavedModel_outputs \<and> entries = outputs (signature h)"
    then show ?thesis
      by (simp add: TFSavedModel_outputs_def Let_def split: prod.splits option.splits)
  qed
  with assms(2) run
  have "s' = t \<and> r = (case e of Some x \<Rightarrow> Inl x | None \<Rightarrow> Inr (Object_values entries))"
    by (cases e) simp_all
  with run show ?thesis by blast
qed

text \<open>
  Claim C7, as amended. An accessor does not write to the handle's own fields (it returns
  no new handle). Whether it returns or throws, it leaves the dtype, the native dtype and
  the shape of every tensor info as they were, and leaves alone every tensor info that is
  not bound in the map it reads (\<^verbatim>\<open>inputs\<close> or \<^verbatim>\<open>outputs\<close> of the bound signature) and
  every tensor info whose stored name is not a string ending in \<^verbatim>\<open>:0\<close>. When it returns,
  what it returns are the tensor infos bound in that map, and it has overwritten the stored
  name of each of them with that name stripped of one trailing \<^verbatim>\<open>:0\<close> for every time the
  tensor info occurs in the returned sequence: once, when the tensor infos are distinct.
\<close>

theorem accessor_writes_only_names:
  assumes "accessor = TFSavedModel_inputs \<and> entries = inputs (signature h)
           \<or> accessor = TFSavedModel_outputs \<and> entries = outputs (signature h)"
    and "accessor h s = (r, s')"
  shows "(\<forall>a. dtype (s' a) = dtype (s a) \<and> tfDtype (s' a) = tfDtype (s a)
            \<and> shape (s' a) = shape (s a))
     \<and> (\<forall>a. a \<notin> set (Object_values entries) \<longrightarrow> s' a = s a)
     \<and> (\<forall>a. (\<forall>n. name (s a) = JSString n \<longrightarrow> \<not> suffix '':0'' n) \<longrightarrow> s' a = s a)
     \<and> (\<forall>results. r = Inr results \<longrightarrow>
           results = Object_values entries
         \<and> (\<forall>a\<in>set results. \<exists>n. name (s a) = JSString n
               \<and> name (s' a) = JSString ((replace_colon0 ^^ count_list results a) n))
         \<and> (distinct results \<longrightarrow>
              (\<forall>a\<in>set results. \<exists>n. name (s a) = JSString n
                 \<and> name (s' a) = JSString (replace_colon0 n))))"
proof -
  let ?as = "Object_values entries"
  from accessor_entries [OF assms] obtain e where
    run: "forEach_replace ?as s = (e, s')"
    and r: "r = (case e of Some x \<Rightarrow> Inl x | None \<Rightarrow> Inr ?as)"
    by blast
  have fields: "dtype (s' a) = dtype (s a) \<and> tfDtype (s' a) = tfDtype (s a)
      \<and> shape (s' a) = shape (s a)" for a
    by (rule forEach_replace_fields [OF run])
  have frame: "s' a = s a" if "a \<notin> set ?as" for a
    using forEach_replace_frame [OF run that] .
  have kept: "s' a = s a" if "\<forall>n. name (s a) = JSString n \<longrightarrow> \<not> suffix '':0'' n" for a
  proof -
    from that have "name (s' a) = name (s a)"
      by (intro forEach_replace_kept [OF run]) blast
    with fields [of a] show ?thesis
      by (intro ModelTensorInfo.equality) simp_all
  qed
  have returned: "results = ?as
         \<and> (\<forall>a\<in>set results. \<exists>n. name (s a) = JSString n
               \<and> name (s' a) = JSString ((replace_colon0 ^^ count_list results a) n))
         \<and> (distinct results \<longrightarrow>
              (\<forall>a\<in>set results. \<exists>n. name (s a) = JSString n
                 \<and> name (s' a) = JSString (replace_colon0 n)))"
    if "r = Inr results" for results
  proof -
    from that r have e: "e = None" and res: "results = ?as"
      by (cases e; simp)+
    from run e res have ok: "forEach_replace results s = (None, s')"
      by simp
    have counted: "\<exists>n. name (s a) = JSString n
        \<and> name (s' a) = JSString ((replace_colon0 ^^ count_list results a) n)"
      if "a \<in> set results" for a
    proof -
      from forEach_replace_strings [OF ok that] obtain n where n: "name (s a) = JSString n"
        by blast
      with forEach_replace_counted [OF ok n] show ?thesis by blast
    qed
    have once: "\<exists>n. name (s a) = JSString n \<and> name (s' a) = JSString (replace_colon0 n)"
      if "distinct results" "a \<in> set results" for a
      using forEach_replace_distinct [OF ok that] .
    from res counted once show ?thesis by blast
  qed
  from fields frame kept returned show ?thesis by blast
qed

theorem accessor_writes_only_names_witness:
  "TFSavedModel_inputs example_handle example_store =
     (Inr [0, 1], example_store(0 := example_info ''output'', 1 := example_info ''output''))
   \<and> Object_values (inputs (signature example_handle)) = [0, 1]
   \<and> distinct [0::nat, 1]
   \<and> name (example_store 0) = JSString ''output:0''
   \<and> name ((example_store(0 := example_info ''output'', 1 := example_info ''output'')) 0) =
       JSString (replace_colon0 ''output:0'')
   \<and> shape ((example_store(0 := example_info ''output'', 1 := example_info ''output'')) 0) =
       shape (example_store 0)
   \<and> (example_store(0 := example_info ''output'', 1 := example_info ''output'')) 1 =
       example_store 1
   \<and> (example_store(0 := example_info ''output'', 1 := example_info ''output'')) 2 =
       example_store 2"
proof -
  have e: "TFSavedModel_inputs = TFSavedModel_inputs
        \<and> inputs (signature example_handle) = inputs (signature example_handle)
      \<or> TFSavedModel_inputs = TFSavedModel_outputs
        \<and> inputs (signature example_handle) = outputs (signature example_handle)"
    by simp
  note t = accessor_writes_only_names [OF e example_inputs_run]
  from t show ?thesis
    using example_inputs_run
    by (simp add: example_store_def example_info_def example_handle_def Object_values_def
        replace_colon0_def)
qed

text \<open>
  The claim as it is written has the accessors leave the stored names as they were. The
  \<^verbatim>\<open>forEach\<close> assigns to \<^verbatim>\<open>info.name\<close> of the objects the signature holds: after
  \<^verbatim>\<open>inputs\<close>, the tensor stored as \<^verbatim>\<open>output:0\<close> is stored as \<^verbatim>\<open>output\<close>.
\<close>

theorem accessor_rewrites_stored_name_counterexample:
  "TFSavedModel_inputs example_handle example_store =
     (Inr [0, 1], example_store(0 := example_info ''output'', 1 := example_info ''output''))
   \<and> name (example_store 0) = JSString ''output:0''
   \<and> name ((example_store(0 := example_info ''output'', 1 := example_info ''output'')) 0) =
       JSString ''output''
   \<and> example_store(0 := example_info ''output'', 1 := example_info ''output'') \<noteq> example_store"
proof -
  have "(example_store(0 := example_info ''output'', 1 := example_info ''output'')) 0 \<noteq>
      example_store 0"
    by (simp add: example_store_def example_info_def)
  then have "example_store(0 := example_info ''output'', 1 := example_info ''output'') \<noteq>
      example_store"
    by metis
  with example_inputs_run show ?thesis
    by (simp add: example_store_def example_info_def)
qed

end

